theory Spec2Isabelle
  imports Complex_Main
begin

section \<open>Values and population records\<close>

text \<open>
  The population comes from a JSON document. A member of a record is a string, an
  integer or null; \<open>JNull\<close> is also Python's \<open>None\<close>, which \<open>dict.get\<close> returns for
  a key that is absent.
\<close>

datatype jval = JStr string | JNum int | JNull

type_synonym jobj = "(string \<times> jval) list"

text \<open>\<open>d.get(k)\<close>: the value stored under \<open>k\<close>, \<open>None\<close> when there is none.\<close>

definition dict_get :: "jobj \<Rightarrow> string \<Rightarrow> jval" where
  "dict_get d k = (case map_of d k of None \<Rightarrow> JNull | Some v \<Rightarrow> v)"

text \<open>
  A population record: the members other than the sequence, and the member
  \<open>'DNA_sequence'\<close>, a string, when the record has one
  (\<open>'DNA_sequence' in entry\<close> is \<open>DNA_sequence entry \<noteq> None\<close>).
\<close>

record entry =
  members :: jobj
  DNA_sequence :: "string option"

datatype error = ZeroDivisionError | NameError

section \<open>The alignment scorer\<close>

text \<open>
  Modelled from the spec: \<open>Bio.pairwise2.align.globalms\<close>, the library routine that
  \<open>needleman_wunsch_similarity\<close> calls; its code is not part of the repository. The
  source passes \<open>gap_penalty\<close> both as the penalty for opening and for extending a gap,
  so a gap of length \<open>k\<close> costs \<open>k * gap_penalty\<close> and the score is the one of the
  matrix of section 4.1 of the specification:
  \<open>M[0][0] = 0\<close>, \<open>M[i][0] = i * gap_penalty\<close>, \<open>M[0][j] = j * gap_penalty\<close> and
  \<open>M[i][j] = max(M[i-1][j-1] + (match_score if seq1[i-1] == seq2[j-1] else
  mismatch_penalty), M[i-1][j] + gap_penalty, M[i][j-1] + gap_penalty)\<close>.

  \<open>score_matrix m mm g p q\<close> is the entry \<open>M[i][j]\<close> for the prefix of \<open>seq1\<close> of length
  \<open>i\<close> and the prefix of \<open>seq2\<close> of length \<open>j\<close>, each given last symbol first: the
  head of \<open>p\<close> is \<open>seq1[i-1]\<close> and the head of \<open>q\<close> is \<open>seq2[j-1]\<close>.
\<close>

fun score_matrix :: "int \<Rightarrow> int \<Rightarrow> int \<Rightarrow> 'a list \<Rightarrow> 'a list \<Rightarrow> int" where
  "score_matrix m mm g [] [] = 0"
| "score_matrix m mm g (x # xs) [] = int (length (x # xs)) * g"
| "score_matrix m mm g [] (y # ys) = int (length (y # ys)) * g"
| "score_matrix m mm g (x # xs) (y # ys) =
     max (max (score_matrix m mm g xs ys + (if x = y then m else mm))
              (score_matrix m mm g xs (y # ys) + g))
         (score_matrix m mm g (x # xs) ys + g)"

text \<open>
  Modelled from the spec: \<open>Bio.pairwise2.align.globalms\<close>. The result is the list of
  the best alignments, each given here by its score (member 2 of the library's
  alignment tuple, the only one the source reads). The list is empty when one of the
  sequences is empty: the similarity is treated as 0 when either sequence has zero
  length, and the source's test \<open>if not alignments\<close> is the only place that can make
  it so.
\<close>

definition globalms :: "'a list \<Rightarrow> 'a list \<Rightarrow> int \<Rightarrow> int \<Rightarrow> int \<Rightarrow> int list" where
  "globalms seq1 seq2 match_score mismatch_penalty gap_penalty =
     (if seq1 = [] \<or> seq2 = [] then []
      else [score_matrix match_score mismatch_penalty gap_penalty (rev seq1) (rev seq2)])"

text \<open>
  \<open>needleman_wunsch_similarity\<close> (application.py, lines 11-19). Python's floats are
  taken as exact rationals. The division raises \<open>ZeroDivisionError\<close> when \<open>max_score\<close>
  is 0.
\<close>

definition needleman_wunsch_similarity ::
  "'a list \<Rightarrow> 'a list \<Rightarrow> int \<Rightarrow> int \<Rightarrow> int \<Rightarrow> error + rat" where
  "needleman_wunsch_similarity seq1 seq2 match_score mismatch_penalty gap_penalty =
     (case globalms seq1 seq2 match_score mismatch_penalty gap_penalty of
        [] \<Rightarrow> Inr 0
      | alignment_score # _ \<Rightarrow>
          (let max_score = int (max (length seq1) (length seq2)) * match_score
           in if max_score = 0 then Inl ZeroDivisionError
              else Inr (of_int alignment_score / of_int max_score)))"

text \<open>
  Python's \<open>round\<close> with one argument: the nearest integer, a tie going to the even one.
\<close>

definition py_round :: "rat \<Rightarrow> int" where
  "py_round x =
     (let f = \<lfloor>x\<rfloor>; d = x - of_int f
      in if d < 1 / 2 then f
         else if 1 / 2 < d then f + 1
         else if even f then f else f + 1)"

section \<open>The matching engine\<close>

text \<open>
  The handlers are modelled from the point where the query sequence \<open>sequence_a\<close> and
  the population have been obtained. Each handler returns its response together with
  the list of the calls of the scorer it made, in order: a call is the pair of the
  sequences passed to \<open>needleman_wunsch_similarity\<close> (the source prints one line for
  each).
\<close>

type_synonym scorer_call = "string \<times> string"

definition info_keys :: "string list" where
  "info_keys = [''name'', ''status'', ''description'', ''createdAt'', ''updatedAt'',
     ''address'', ''national_id'', ''phone'', ''gender'', ''birthdate'', ''bloodType'']"

text \<open>\<open>{key: entry[key] for key in info_keys if key in entry}\<close>\<close>

definition select_info :: "entry \<Rightarrow> jobj" where
  "select_info entry =
     concat (map (\<lambda>key. case map_of (members entry) key of
                           None \<Rightarrow> [] | Some v \<Rightarrow> [(key, v)]) info_keys)"

subsection \<open>Identification (\<open>/identify\<close>, lines 131-193)\<close>

record identify_state =
  matches :: "jobj list"
  match_info :: "jobj option"
  similarity_percentage :: "int option"
  calls :: "scorer_call list"

text \<open>
  The responses: status code 400 with the message \<open>Invalid status ...\<close>; status code
  200 with the members \<open>matches\<close> and \<open>similarity_percentage\<close>; status code 400 with
  the message \<open>No matches found.\<close>
\<close>

datatype identify_response =
  InvalidStatus
| Identification jobj int
| NoMatches

text \<open>
  The loop of lines 157-174. The variables \<open>match_info\<close> and \<open>similarity_percentage\<close>
  are unbound (\<open>None\<close>) until their first assignment. Returning \<open>Inr\<close> before the end
  of the list is the \<open>break\<close>.
\<close>

fun identify_loop :: "string \<Rightarrow> entry list \<Rightarrow> identify_state \<Rightarrow> error + identify_state" where
  "identify_loop sequence_a [] s = Inr s"
| "identify_loop sequence_a (entry # rest) s =
     (case DNA_sequence entry of
        None \<Rightarrow> identify_loop sequence_a rest s
      | Some dna \<Rightarrow>
          (let sequence_b = take 2000 dna in
           case needleman_wunsch_similarity sequence_a sequence_b 3 (- 1) (- 2) of
             Inl e \<Rightarrow> Inl e
           | Inr similarity_score \<Rightarrow>
               (let s1 = s\<lparr>similarity_percentage := Some (py_round (similarity_score * 100)),
                           calls := calls s @ [(sequence_a, sequence_b)]\<rparr>
                in if similarity_score = 1
                   then (let s2 = s1\<lparr>match_info := Some (select_info entry),
                                      matches := matches s1 @ [select_info entry]\<rparr>
                         in if similarity_percentage s2 = Some 100 then Inr s2
                            else identify_loop sequence_a rest s2)
                   else identify_loop sequence_a rest s1)))"

text \<open>
  Lines 157-193: the loop and the response. Reading a variable that was never assigned
  raises \<open>NameError\<close>.
\<close>

definition identify_search ::
  "string \<Rightarrow> entry list \<Rightarrow> error + identify_response \<times> scorer_call list" where
  "identify_search sequence_a filtered_data =
     (case identify_loop sequence_a filtered_data
             \<lparr>matches = [], match_info = None, similarity_percentage = None, calls = []\<rparr> of
        Inl e \<Rightarrow> Inl e
      | Inr s \<Rightarrow>
          if matches s \<noteq> []
          then (case match_info s of
                  None \<Rightarrow> Inl NameError
                | Some mi \<Rightarrow>
                    (case similarity_percentage s of
                       None \<Rightarrow> Inl NameError
                     | Some sp \<Rightarrow> Inr (Identification mi sp, calls s)))
          else Inr (NoMatches, calls s))"

definition valid_statuses :: "string list" where
  "valid_statuses = [''missing'', ''acknowledged'', ''crime'', ''disaster'']"

text \<open>
  Lines 146-155, then the search. \<open>selected_status\<close> is \<open>request.form.get('status')\<close>:
  \<open>None\<close> when the form has no such member.
\<close>

definition identify ::
  "string \<Rightarrow> entry list \<Rightarrow> string option \<Rightarrow> error + identify_response \<times> scorer_call list" where
  "identify sequence_a population selected_status =
     (if selected_status = Some ''all'' then identify_search sequence_a population
      else if selected_status \<notin> Some ` set valid_statuses then Inr (InvalidStatus, [])
      else identify_search sequence_a
             (filter (\<lambda>entry. Some (dict_get (members entry) ''status'') =
                               map_option JStr selected_status) population))"

subsection \<open>Search with relatives (\<open>/missing\<close>, lines 218-279)\<close>

text \<open>An element \<open>{"relative_data": child_info}\<close> of \<open>potential_children_info\<close>.\<close>

record child =
  relative_data :: jobj

record missing_state =
  main_match_info :: jobj
  potential_children_info :: "child list"
  scored :: "scorer_call list"

text \<open>
  The responses: status code 200 with \<open>main_match_info\<close> and the list
  \<open>potential_relative_info\<close>; status code 200 with \<open>main_match_info\<close> and the one
  element \<open>No matching child found\<close> in place of the list; status code 404 with the
  message \<open>No match found.\<close>
\<close>

datatype missing_response =
  MatchWithRelatives jobj "child list"
| MatchNoRelative jobj
| NoMatchFound

definition SIMILARITY_THRESHOLD :: int where
  "SIMILARITY_THRESHOLD = 100"

definition SIMILARITY_THRESHOLD_CHILD :: int where
  "SIMILARITY_THRESHOLD_CHILD = 96"

text \<open>
  Lines 237-252, the body of the loop from the similarity score on: the variable
  \<open>match_info\<close> of the source is \<open>main_match_info\<close> here.
\<close>

definition missing_classify :: "entry \<Rightarrow> rat \<Rightarrow> missing_state \<Rightarrow> missing_state" where
  "missing_classify entry similarity_score s =
     (let similarity_percentage = py_round (similarity_score * 100);
          s1 = (if similarity_percentage = SIMILARITY_THRESHOLD
                then s\<lparr>main_match_info := select_info entry @
                         [(''similarity_percentage'', JNum similarity_percentage),
                          (''match_status'', JStr ''DNA MATCH'')]\<rparr>
                else s)
      in if SIMILARITY_THRESHOLD_CHILD \<le> similarity_percentage
         then s1\<lparr>potential_children_info :=
                   potential_children_info s1 @ [\<lparr>relative_data = select_info entry\<rparr>]\<rparr>
         else s1)"

fun missing_loop :: "string \<Rightarrow> entry list \<Rightarrow> missing_state \<Rightarrow> error + missing_state" where
  "missing_loop sequence_a [] s = Inr s"
| "missing_loop sequence_a (entry # rest) s =
     (case DNA_sequence entry of
        None \<Rightarrow> missing_loop sequence_a rest s
      | Some dna \<Rightarrow>
          (let sequence_b = take 2000 dna in
           case needleman_wunsch_similarity sequence_a sequence_b 3 (- 1) (- 2) of
             Inl e \<Rightarrow> Inl e
           | Inr similarity_score \<Rightarrow>
               missing_loop sequence_a rest
                 (missing_classify entry similarity_score
                    (s\<lparr>scored := scored s @ [(sequence_a, sequence_b)]\<rparr>))))"

definition missing ::
  "string \<Rightarrow> entry list \<Rightarrow> error + missing_response \<times> scorer_call list" where
  "missing sequence_a population =
     (case missing_loop sequence_a population
             \<lparr>main_match_info = [], potential_children_info = [], scored = []\<rparr> of
        Inl e \<Rightarrow> Inl e
      | Inr s \<Rightarrow>
          if main_match_info s \<noteq> []
          then (let main_national_id = dict_get (main_match_info s) ''national_id'';
                    remaining = filter (\<lambda>child. dict_get (relative_data child) ''national_id''
                                                  \<noteq> main_national_id)
                                  (potential_children_info s)
                in if remaining \<noteq> []
                   then Inr (MatchWithRelatives (main_match_info s) remaining, scored s)
                   else Inr (MatchNoRelative (main_match_info s), scored s))
          else Inr (NoMatchFound, scored s))"

subsection \<open>What the handlers compute for one record\<close>

text \<open>
  The list iterated by \<open>identify\<close> once the status has been accepted (lines 146-155).
\<close>

definition filtered_data :: "entry list \<Rightarrow> string option \<Rightarrow> entry list" where
  "filtered_data population selected_status =
     (if selected_status = Some ''all'' then population
      else filter (\<lambda>entry. Some (dict_get (members entry) ''status'') =
                            map_option JStr selected_status) population)"

text \<open>
  The similarity score of a record against the query (lines 160-162 and 235-236), with
  the default scoring parameters; \<open>None\<close> for a record without a sequence, which is
  not scored.
\<close>

definition entry_similarity :: "string \<Rightarrow> entry \<Rightarrow> rat option" where
  "entry_similarity sequence_a entry =
     (case DNA_sequence entry of
        None \<Rightarrow> None
      | Some dna \<Rightarrow>
          (case needleman_wunsch_similarity sequence_a (take 2000 dna) 3 (- 1) (- 2) of
             Inl e \<Rightarrow> None
           | Inr similarity_score \<Rightarrow> Some similarity_score))"

text \<open>The similarity percentage of a record (lines 163 and 237).\<close>

definition entry_percentage :: "string \<Rightarrow> entry \<Rightarrow> int option" where
  "entry_percentage sequence_a entry =
     map_option (\<lambda>similarity_score. py_round (similarity_score * 100))
       (entry_similarity sequence_a entry)"

text \<open>The calls of the scorer for the records of a list, in order.\<close>

definition entry_calls :: "string \<Rightarrow> entry list \<Rightarrow> scorer_call list" where
  "entry_calls sequence_a entries =
     concat (map (\<lambda>entry. case DNA_sequence entry of
                             None \<Rightarrow> []
                           | Some dna \<Rightarrow> [(sequence_a, take 2000 dna)]) entries)"

text \<open>The primary match recorded for a record (lines 242-244).\<close>

definition main_info :: "entry \<Rightarrow> jobj" where
  "main_info entry =
     select_info entry @
       [(''similarity_percentage'', JNum 100), (''match_status'', JStr ''DNA MATCH'')]"

text \<open>The candidate recorded for a record (lines 248-252).\<close>

definition relative_of :: "entry \<Rightarrow> child" where
  "relative_of entry = \<lparr>relative_data = select_info entry\<rparr>"

text \<open>
  The two tests of \<open>/missing\<close> on a record (lines 241 and 247); a record without a
  sequence passes neither.
\<close>

definition exact_threshold_met :: "string \<Rightarrow> entry \<Rightarrow> bool" where
  "exact_threshold_met sequence_a entry =
     (entry_percentage sequence_a entry = Some SIMILARITY_THRESHOLD)"

definition child_threshold_met :: "string \<Rightarrow> entry \<Rightarrow> bool" where
  "child_threshold_met sequence_a entry =
     (case entry_percentage sequence_a entry of
        None \<Rightarrow> False
      | Some percentage \<Rightarrow> SIMILARITY_THRESHOLD_CHILD \<le> percentage)"

text \<open>The primary match and the relatives that a response of \<open>/missing\<close> reports.\<close>

fun primary_match :: "missing_response \<Rightarrow> jobj option" where
  "primary_match (MatchWithRelatives m rs) = Some m"
| "primary_match (MatchNoRelative m) = Some m"
| "primary_match NoMatchFound = None"

fun relatives :: "missing_response \<Rightarrow> child list" where
  "relatives (MatchWithRelatives m rs) = rs"
| "relatives (MatchNoRelative m) = []"
| "relatives NoMatchFound = []"

section \<open>Properties of the scorer\<close>

lemma score_matrix_commute:
  "score_matrix m mm g xs ys = score_matrix m mm g ys xs"
proof (induction m mm g xs ys rule: score_matrix.induct)
  case (4 m mm g x xs y ys)
  then show ?case by (simp add: max.commute max.left_commute eq_commute[of x y] max.assoc)
qed simp_all

lemma score_matrix_upper_aux:
  "m = 3 \<Longrightarrow> mm = - 1 \<Longrightarrow> g = - 2 \<Longrightarrow>
   2 * score_matrix m mm g xs ys
     \<le> 3 * (int (length xs) + int (length ys)) - (if xs = ys then 0 else 7)"
proof (induction m mm g xs ys rule: score_matrix.induct)
  case (4 m mm g x xs y ys)
  have a: "2 * score_matrix m mm g xs ys
     \<le> 3 * (int (length xs) + int (length ys)) - (if xs = ys then 0 else 7)"
    using 4 by blast
  have b: "2 * score_matrix m mm g xs (y # ys)
     \<le> 3 * (int (length xs) + int (length (y # ys)))"
    using "4.IH"(2)[OF "4.prems"] by (simp split: if_splits)
  have c: "2 * score_matrix m mm g (x # xs) ys
     \<le> 3 * (int (length (x # xs)) + int (length ys))"
    using "4.IH"(3)[OF "4.prems"] by (simp split: if_splits)
  show ?case using a b c "4.prems"
    by (auto simp: max_def split: if_splits)
qed auto

lemma score_matrix_upper:
  "2 * score_matrix 3 (- 1) (- 2) xs ys
     \<le> 3 * (int (length xs) + int (length ys)) - (if xs = ys then 0 else 7)"
  by (rule score_matrix_upper_aux) simp_all

lemma score_matrix_diag:
  "score_matrix m mm g xs ys + (if x = y then m else mm)
     \<le> score_matrix m mm g (x # xs) (y # ys)"
  by simp

lemma score_matrix_self: "score_matrix 3 (- 1) (- 2) xs xs = 3 * int (length xs)"
proof (induction xs)
  case (Cons x xs)
  have "3 * int (length (x # xs)) \<le> score_matrix 3 (- 1) (- 2) (x # xs) (x # xs)"
    using score_matrix_diag[of 3 "- 1" "- 2" xs xs x x] Cons by simp
  moreover have "2 * score_matrix 3 (- 1) (- 2) (x # xs) (x # xs) \<le> 3 * (int (length (x # xs)) + int (length (x # xs)))"
    using score_matrix_upper[of "x # xs" "x # xs"] by simp
  ultimately show ?case by (simp del: score_matrix.simps)
qed simp

lemma score_matrix_one_mismatch:
  assumes "x \<noteq> y"
  shows "score_matrix 3 (- 1) (- 2) (x # xs) (y # xs) = 3 * int (length xs) - 1"
proof -
  have "3 * int (length xs) - 1 \<le> score_matrix 3 (- 1) (- 2) (x # xs) (y # xs)"
    using score_matrix_diag[of 3 "- 1" "- 2" xs xs x y] assms by (simp add: score_matrix_self del: score_matrix.simps)
  moreover have "2 * score_matrix 3 (- 1) (- 2) (x # xs) (y # xs) \<le> 3 * (int (length (x # xs)) + int (length (y # xs))) - 7"
    using score_matrix_upper[of "x # xs" "y # xs"] assms by simp
  ultimately show ?thesis by (simp del: score_matrix.simps)
qed

lemma nws_default:
  "needleman_wunsch_similarity a b 3 (- 1) (- 2) =
     Inr (if a = [] \<or> b = [] then 0
          else rat_of_int (score_matrix 3 (- 1) (- 2) (rev a) (rev b)) /
               rat_of_int (3 * int (max (length a) (length b))))"
  by (auto simp: needleman_wunsch_similarity_def globalms_def Let_def)

lemma score_matrix_less:
  assumes "xs \<noteq> ys"
  shows "score_matrix 3 (- 1) (- 2) xs ys < 3 * int (max (length xs) (length ys))"
proof -
  define n where "n = int (max (length xs) (length ys))"
  have "int (length xs) \<le> n" "int (length ys) \<le> n" by (simp_all add: n_def)
  moreover have "2 * score_matrix 3 (- 1) (- 2) xs ys \<le> 3 * (int (length xs) + int (length ys)) - 7"
    using score_matrix_upper[of xs ys] assms by simp
  ultimately have "score_matrix 3 (- 1) (- 2) xs ys < 3 * n" by simp
  then show ?thesis by (simp only: n_def)
qed

lemma nws_one_iff:
  "needleman_wunsch_similarity a b 3 (- 1) (- 2) = Inr 1 \<longleftrightarrow> a = b \<and> a \<noteq> []"
proof (cases "a = [] \<or> b = []")
  case True
  then show ?thesis by (auto simp: nws_default)
next
  case False
  define n where "n = int (max (length a) (length b))"
  have n: "0 < n" using False unfolding n_def by (cases a) auto
  show ?thesis
  proof (cases "a = b")
    case True
    then show ?thesis using False by (simp add: nws_default score_matrix_self)
  next
    case ne: False
    have "score_matrix 3 (- 1) (- 2) (rev a) (rev b) < 3 * n"
      using score_matrix_less[of "rev a" "rev b"] ne by (simp add: n_def)
    then have "rat_of_int (score_matrix 3 (- 1) (- 2) (rev a) (rev b)) \<noteq> rat_of_int (3 * n)"
      by (simp only: of_int_eq_iff)
    then show ?thesis using False ne n by (simp add: nws_default n_def del: of_int_mult)
  qed
qed


lemma nws_one_mismatch:
  assumes "x \<noteq> y"
  shows "needleman_wunsch_similarity (zs @ [x]) (zs @ [y]) 3 (- 1) (- 2) =
           Inr (rat_of_int (3 * int (length zs) - 1) / rat_of_int (3 * (int (length zs) + 1)))"
  using assms by (simp add: nws_default score_matrix_one_mismatch del: score_matrix.simps)

lemma entry_similarity_one_iff:
  "entry_similarity a e = Some 1 \<longleftrightarrow>
     (\<exists>dna. DNA_sequence e = Some dna \<and> take 2000 dna = a \<and> a \<noteq> [])"
proof (cases "DNA_sequence e")
  case None
  then show ?thesis by (simp add: entry_similarity_def)
next
  case (Some dna)
  have "entry_similarity a e = Some 1 \<longleftrightarrow>
        needleman_wunsch_similarity a (take 2000 dna) 3 (- 1) (- 2) = Inr 1"
    using Some by (simp add: entry_similarity_def split: sum.splits)
  also have "\<dots> \<longleftrightarrow> a = take 2000 dna \<and> a \<noteq> []"
    by (rule nws_one_iff)
  finally show ?thesis using Some by auto
qed


lemma map_of_select:
  "map_of (concat (map (\<lambda>key. case m key of None \<Rightarrow> [] | Some v \<Rightarrow> [(key, v)]) ks)) k =
     (if k \<in> set ks then m k else None)"
  by (induction ks) (auto split: option.splits)

lemma map_of_select_info:
  "map_of (select_info e) k = (if k \<in> set info_keys then map_of (members e) k else None)"
  unfolding select_info_def by (rule map_of_select)

lemma dict_get_select_info:
  "dict_get (select_info e) ''national_id'' = dict_get (members e) ''national_id''"
  by (simp add: dict_get_def map_of_select_info) (simp add: info_keys_def)

lemma dict_get_main_info:
  "dict_get (main_info e) ''national_id'' = dict_get (members e) ''national_id''"
proof -
  have "map_of (main_info e) ''national_id'' = map_of (select_info e) ''national_id''"
    by (simp add: main_info_def map_add_def split: option.splits)
  then show ?thesis using dict_get_select_info[of e] by (simp add: dict_get_def)
qed

lemma main_info_nonempty: "main_info e \<noteq> []"
  by (simp add: main_info_def)


lemma py_round_of_int: "py_round (of_int n) = n"
  by (simp add: py_round_def)

lemma nws_total:
  "\<exists>r. needleman_wunsch_similarity a b 3 (- 1) (- 2) = Inr r"
  by (simp add: nws_default)

lemma entry_calls_Cons:
  "entry_calls a (e # es) =
     (case DNA_sequence e of None \<Rightarrow> [] | Some dna \<Rightarrow> [(a, take 2000 dna)]) @ entry_calls a es"
  by (simp add: entry_calls_def)

lemma entry_calls_Nil: "entry_calls a [] = []"
  by (simp add: entry_calls_def)

section \<open>The loops of the handlers\<close>

lemma identify_loop_no_exact:
  "\<forall>e\<in>set es. entry_similarity a e \<noteq> Some 1 \<Longrightarrow>
   \<exists>sp. identify_loop a es s =
          Inr (s\<lparr>similarity_percentage := sp, calls := calls s @ entry_calls a es\<rparr>)"
proof (induction es arbitrary: s)
  case Nil
  have "identify_loop a [] s = Inr (s\<lparr>similarity_percentage := similarity_percentage s, calls := calls s @ entry_calls a []\<rparr>)"
    by (simp add: entry_calls_Nil)
  then show ?case by blast
next
  case (Cons e es)
  show ?case
  proof (cases "DNA_sequence e")
    case None
    then show ?thesis using Cons.IH[of s] Cons.prems by (simp add: entry_calls_Cons)
  next
    case (Some dna)
    obtain r where r: "needleman_wunsch_similarity a (take 2000 dna) 3 (- 1) (- 2) = Inr r"
      using nws_total by blast
    have ne: "r \<noteq> 1" using Cons.prems Some r by (simp add: entry_similarity_def)
    let ?s1 = "s\<lparr>similarity_percentage := Some (py_round (r * 100)),
                  calls := calls s @ [(a, take 2000 dna)]\<rparr>"
    obtain sp where "identify_loop a es ?s1 =
          Inr (?s1\<lparr>similarity_percentage := sp, calls := calls ?s1 @ entry_calls a es\<rparr>)"
      using Cons.IH[of ?s1] Cons.prems by auto
    then have "identify_loop a (e # es) s =
          Inr (s\<lparr>similarity_percentage := sp, calls := calls s @ entry_calls a (e # es)\<rparr>)"
      using Some r ne by (simp add: entry_calls_Cons)
    then show ?thesis by blast
  qed
qed

lemma identify_loop_first_exact:
  "\<forall>x\<in>set pre. entry_similarity a x \<noteq> Some 1 \<Longrightarrow> entry_similarity a e = Some 1 \<Longrightarrow>
   identify_loop a (pre @ e # post) s =
     Inr (s\<lparr>similarity_percentage := Some 100,
            calls := calls s @ entry_calls a (pre @ [e]),
            match_info := Some (select_info e),
            matches := matches s @ [select_info e]\<rparr>)"
proof (induction pre arbitrary: s)
  case Nil
  then obtain dna where d: "DNA_sequence e = Some dna"
     and r: "needleman_wunsch_similarity a (take 2000 dna) 3 (- 1) (- 2) = Inr 1"
    by (auto simp: entry_similarity_def split: option.splits sum.splits)
  have "py_round (of_int 100) = 100" by (rule py_round_of_int)
  then have "py_round 100 = 100" by simp
  then show ?case using d r by (simp add: entry_calls_Cons entry_calls_Nil)
next
  case (Cons x pre)
  show ?case
  proof (cases "DNA_sequence x")
    case None
    then show ?thesis using Cons.IH[of s] Cons.prems by (simp add: entry_calls_Cons)
  next
    case (Some dna)
    obtain r where r: "needleman_wunsch_similarity a (take 2000 dna) 3 (- 1) (- 2) = Inr r"
      using nws_total by blast
    have ne: "r \<noteq> 1" using Cons.prems Some r by (simp add: entry_similarity_def)
    let ?s1 = "s\<lparr>similarity_percentage := Some (py_round (r * 100)),
                  calls := calls s @ [(a, take 2000 dna)]\<rparr>"
    show ?thesis using Cons.IH[of ?s1] Cons.prems Some r ne
      by (simp add: entry_calls_Cons)
  qed
qed

lemma find_split:
  "find P xs = Some e \<Longrightarrow>
   \<exists>post. xs = takeWhile (\<lambda>x. \<not> P x) xs @ e # post \<and> P e"
  by (induction xs) (auto split: if_splits)

lemma identify_search_eq:
  "identify_search a fs =
     Inr (case find (\<lambda>e. entry_similarity a e = Some 1) fs of
            None \<Rightarrow> (NoMatches, entry_calls a fs)
          | Some e \<Rightarrow>
              (Identification (select_info e) 100,
               entry_calls a (takeWhile (\<lambda>e. entry_similarity a e \<noteq> Some 1) fs @ [e])))"
proof (cases "find (\<lambda>e. entry_similarity a e = Some 1) fs")
  case None
  then have "\<forall>e\<in>set fs. entry_similarity a e \<noteq> Some 1" by (simp add: find_None_iff)
  from identify_loop_no_exact[OF this, of "\<lparr>matches = [], match_info = None,
      similarity_percentage = None, calls = []\<rparr>"]
  obtain sp where "identify_loop a fs \<lparr>matches = [], match_info = None,
      similarity_percentage = None, calls = []\<rparr> =
      Inr \<lparr>matches = [], match_info = None, similarity_percentage = sp,
           calls = entry_calls a fs\<rparr>" by auto
  then show ?thesis using None unfolding identify_search_def by simp
next
  case (Some e)
  from find_split[OF this] obtain post where
    fs: "fs = takeWhile (\<lambda>e. entry_similarity a e \<noteq> Some 1) fs @ e # post"
    and e: "entry_similarity a e = Some 1" by blast
  have pre: "\<forall>x\<in>set (takeWhile (\<lambda>e. entry_similarity a e \<noteq> Some 1) fs). entry_similarity a x \<noteq> Some 1"
    by (auto dest: set_takeWhileD)
  have "identify_search a (takeWhile (\<lambda>e. entry_similarity a e \<noteq> Some 1) fs @ e # post) =
      Inr (Identification (select_info e) 100,
               entry_calls a (takeWhile (\<lambda>e. entry_similarity a e \<noteq> Some 1) fs @ [e]))"
    unfolding identify_search_def
    by (simp add: identify_loop_first_exact[OF pre e])
  then show ?thesis using Some fs by simp
qed

lemma missing_classify_main:
  "main_match_info (missing_classify e r s) =
     (if py_round (r * 100) = 100 then main_info e else main_match_info s)"
  by (simp add: missing_classify_def Let_def main_info_def SIMILARITY_THRESHOLD_def)

lemma missing_classify_children:
  "potential_children_info (missing_classify e r s) =
     (if 96 \<le> py_round (r * 100) then potential_children_info s @ [relative_of e]
      else potential_children_info s)"
  by (simp add: missing_classify_def Let_def relative_of_def SIMILARITY_THRESHOLD_CHILD_def)

lemma missing_classify_scored: "scored (missing_classify e r s) = scored s"
  by (simp add: missing_classify_def Let_def)

lemma missing_loop_eq:
  "\<exists>s'. missing_loop a es s = Inr s' \<and>
      main_match_info s' =
        (if filter (exact_threshold_met a) es = [] then main_match_info s
         else main_info (last (filter (exact_threshold_met a) es))) \<and>
      potential_children_info s' =
        potential_children_info s @ map relative_of (filter (child_threshold_met a) es) \<and>
      scored s' = scored s @ entry_calls a es"
proof (induction es arbitrary: s)
  case Nil
  then show ?case by (simp add: entry_calls_Nil)
next
  case (Cons e es)
  show ?case
  proof (cases "DNA_sequence e")
    case None
    then have "\<not> exact_threshold_met a e" "\<not> child_threshold_met a e"
      by (simp_all add: exact_threshold_met_def child_threshold_met_def entry_percentage_def
            entry_similarity_def)
    then show ?thesis using Cons.IH[of s] None by (auto simp add: entry_calls_Cons)
  next
    case (Some dna)
    obtain r where r: "needleman_wunsch_similarity a (take 2000 dna) 3 (- 1) (- 2) = Inr r"
      using nws_total by blast
    have p: "entry_percentage a e = Some (py_round (r * 100))"
      using Some r by (simp add: entry_percentage_def entry_similarity_def)
    let ?s1 = "missing_classify e r (s\<lparr>scored := scored s @ [(a, take 2000 dna)]\<rparr>)"
    have step: "missing_loop a (e # es) s = missing_loop a es ?s1"
      using Some r by simp
    have m: "main_match_info ?s1 = (if exact_threshold_met a e then main_info e else main_match_info s)"
      by (simp add: missing_classify_main exact_threshold_met_def p SIMILARITY_THRESHOLD_def)
    have c: "potential_children_info ?s1 =
        (if child_threshold_met a e then potential_children_info s @ [relative_of e]
         else potential_children_info s)"
      by (simp add: missing_classify_children child_threshold_met_def p SIMILARITY_THRESHOLD_CHILD_def)
    have sc: "scored ?s1 = scored s @ [(a, take 2000 dna)]"
      by (simp add: missing_classify_scored)
    from Cons.IH[of ?s1] obtain s' where s': "missing_loop a es ?s1 = Inr s'"
      "main_match_info s' =
        (if filter (exact_threshold_met a) es = [] then main_match_info ?s1
         else main_info (last (filter (exact_threshold_met a) es)))"
      "potential_children_info s' =
        potential_children_info ?s1 @ map relative_of (filter (child_threshold_met a) es)"
      "scored s' = scored ?s1 @ entry_calls a es" by blast
    have "main_match_info s' =
        (if filter (exact_threshold_met a) (e # es) = [] then main_match_info s
         else main_info (last (filter (exact_threshold_met a) (e # es))))"
      using s'(2) m by simp
    moreover have "potential_children_info s' =
        potential_children_info s @ map relative_of (filter (child_threshold_met a) (e # es))"
      using s'(3) c by simp
    moreover have "scored s' = scored s @ entry_calls a (e # es)"
      using s'(4) sc Some by (simp add: entry_calls_Cons)
    ultimately show ?thesis using step s'(1) by simp
  qed
qed

lemma missing_eq:
  "missing a population =
     Inr (if filter (exact_threshold_met a) population = [] then NoMatchFound
          else (let p = last (filter (exact_threshold_met a) population);
                    remaining = map relative_of
                      (filter (\<lambda>e. dict_get (members e) ''national_id'' \<noteq>
                                    dict_get (members p) ''national_id'')
                         (filter (child_threshold_met a) population))
                in if remaining \<noteq> [] then MatchWithRelatives (main_info p) remaining
                   else MatchNoRelative (main_info p)),
          entry_calls a population)"
proof -
  let ?init = "\<lparr>main_match_info = [], potential_children_info = [], scored = []\<rparr>"
  have "\<exists>s'. missing_loop a population ?init = Inr s' \<and>
    main_match_info s' =
        (if filter (exact_threshold_met a) population = [] then []
         else main_info (last (filter (exact_threshold_met a) population))) \<and>
    potential_children_info s' = map relative_of (filter (child_threshold_met a) population) \<and>
    scored s' = entry_calls a population"
    using missing_loop_eq[of a population ?init] by auto
  then obtain s' where s':
    "missing_loop a population ?init = Inr s'"
    "main_match_info s' =
        (if filter (exact_threshold_met a) population = [] then []
         else main_info (last (filter (exact_threshold_met a) population)))"
    "potential_children_info s' = map relative_of (filter (child_threshold_met a) population)"
    "scored s' = entry_calls a population" by blast
  have rd: "\<And>e. dict_get (relative_data (relative_of e)) ''national_id'' =
              dict_get (members e) ''national_id''"
    by (simp add: relative_of_def dict_get_select_info)
  show ?thesis
  proof (cases "filter (exact_threshold_met a) population = []")
    case True
    then show ?thesis using s' by (simp add: missing_def)
  next
    case False
    then show ?thesis using s' main_info_nonempty
      by (simp add: missing_def Let_def dict_get_main_info filter_map o_def rd)
  qed
qed

section \<open>The status filter\<close>

lemma identify_accepted:
  "selected_status \<in> Some ` set (''all'' # valid_statuses) \<Longrightarrow>
   identify sequence_a population selected_status =
     identify_search sequence_a (filtered_data population selected_status)"
  by (auto simp: identify_def filtered_data_def)

lemma identify_rejected:
  "selected_status \<notin> Some ` set (''all'' # valid_statuses) \<Longrightarrow>
   identify sequence_a population selected_status = Inr (InvalidStatus, [])"
  by (auto simp: identify_def)

section \<open>The claims about the scorer\<close>

text \<open>
  Claim C5. For every pair of sequences of which one has length zero, and for all scoring
  parameters, the scorer returns the similarity 0: the library returns no alignment, and
  the scorer returns 0.0 before it divides. In particular the similarity of two empty
  sequences is 0, not 1.
\<close>

theorem scorer_empty_sequence:
  "seq1 = [] \<or> seq2 = [] \<Longrightarrow>
   needleman_wunsch_similarity seq1 seq2 match_score mismatch_penalty gap_penalty = Inr 0"
  by (auto simp: needleman_wunsch_similarity_def globalms_def)

theorem scorer_empty_sequence_witness:
  "(([] :: string) = [] \<or> ''ACGT'' = []) \<and>
   needleman_wunsch_similarity ([] :: string) ''ACGT'' 3 (- 1) (- 2) = Inr 0 \<and>
   needleman_wunsch_similarity ([] :: string) [] 3 (- 1) (- 2) = Inr 0"
  using scorer_empty_sequence[of "[] :: string" "''ACGT''" 3 "- 1" "- 2"]
    scorer_empty_sequence[of "[] :: string" "[]" 3 "- 1" "- 2"]
  by simp

text \<open>
  Claim C8. With the default scoring parameters (match 3, mismatch -1, gap -2), the
  similarity of a sequence with itself is exactly 1 when the sequence is not empty, and
  0 when it is empty.
\<close>

theorem identity_alignment:
  "needleman_wunsch_similarity A A 3 (- 1) (- 2) = Inr (if A = [] then 0 else 1)"
proof (cases "A = []")
  case True
  then show ?thesis by (simp add: nws_default)
next
  case False
  then show ?thesis using nws_one_iff[of A A] by simp
qed

theorem identity_alignment_witness:
  "needleman_wunsch_similarity ''ACGT'' ''ACGT'' 3 (- 1) (- 2) = Inr 1"
  using identity_alignment[of "''ACGT''"] by simp

text \<open>
  Claim C9. For all sequences and all scoring parameters, the raw alignment scores of
  \<open>(seq1, seq2)\<close> and of \<open>(seq2, seq1)\<close> are equal: the library returns the same
  list of scores for both orders.
\<close>

theorem raw_score_symmetric:
  "globalms seq1 seq2 match_score mismatch_penalty gap_penalty =
   globalms seq2 seq1 match_score mismatch_penalty gap_penalty"
  by (simp add: globalms_def score_matrix_commute[of _ _ _ "rev seq1"] disj_commute)

section \<open>The claims about identification\<close>

text \<open>
  Claim C4. When the status is accepted, \<open>identify\<close> answers with the first record, in
  the order of the records it iterates, whose similarity against the query is exactly 1,
  and the scorer is called for the records with a sequence up to that record and for no
  record after it. When no record has the similarity 1, the answer is that no match was
  found, after every record with a sequence has been scored: a record is matched only
  when its similarity equals 1.
\<close>

theorem identify_first_exact:
  "selected_status \<in> Some ` set (''all'' # valid_statuses) \<Longrightarrow>
   identify sequence_a population selected_status =
     Inr (case find (\<lambda>e. entry_similarity sequence_a e = Some 1)
                 (filtered_data population selected_status) of
            None \<Rightarrow> (NoMatches, entry_calls sequence_a (filtered_data population selected_status))
          | Some e \<Rightarrow>
              (Identification (select_info e) 100,
               entry_calls sequence_a
                 (takeWhile (\<lambda>e. entry_similarity sequence_a e \<noteq> Some 1)
                    (filtered_data population selected_status) @ [e])))"
  by (simp only: identify_accepted identify_search_eq)

theorem identify_first_exact_witness:
  "Some ''missing'' \<in> Some ` set (''all'' # valid_statuses) \<and>
   identify ''ACGT''
     [\<lparr>members = [(''name'', JStr ''Z''), (''status'', JStr ''crime'')],
       DNA_sequence = Some ''ACGT''\<rparr>,
      \<lparr>members = [(''name'', JStr ''Y''), (''status'', JStr ''missing'')],
       DNA_sequence = None\<rparr>,
      \<lparr>members = [(''name'', JStr ''X''), (''status'', JStr ''missing'')],
       DNA_sequence = Some ''ACGA''\<rparr>,
      \<lparr>members = [(''name'', JStr ''A''), (''status'', JStr ''missing'')],
       DNA_sequence = Some ''ACGT''\<rparr>,
      \<lparr>members = [(''name'', JStr ''B''), (''status'', JStr ''missing'')],
       DNA_sequence = Some ''ACGT''\<rparr>]
     (Some ''missing'') =
   Inr (Identification [(''name'', JStr ''A''), (''status'', JStr ''missing'')] 100,
        [(''ACGT'', ''ACGA''), (''ACGT'', ''ACGT'')])"
  using identify_first_exact[of "Some ''missing''" "''ACGT''"
     "[\<lparr>members = [(''name'', JStr ''Z''), (''status'', JStr ''crime'')],
       DNA_sequence = Some ''ACGT''\<rparr>,
      \<lparr>members = [(''name'', JStr ''Y''), (''status'', JStr ''missing'')],
       DNA_sequence = None\<rparr>,
      \<lparr>members = [(''name'', JStr ''X''), (''status'', JStr ''missing'')],
       DNA_sequence = Some ''ACGA''\<rparr>,
      \<lparr>members = [(''name'', JStr ''A''), (''status'', JStr ''missing'')],
       DNA_sequence = Some ''ACGT''\<rparr>,
      \<lparr>members = [(''name'', JStr ''B''), (''status'', JStr ''missing'')],
       DNA_sequence = Some ''ACGT''\<rparr>]"]
  by (simp add: valid_statuses_def filtered_data_def dict_get_def entry_similarity_one_iff
        entry_calls_def select_info_def info_keys_def)

text \<open>
  Claim C7. \<open>identify\<close> answers that the status is invalid exactly when the status is
  neither \<open>'all'\<close> nor one of \<open>'missing'\<close>, \<open>'acknowledged'\<close>, \<open>'crime'\<close>, \<open>'disaster'\<close>
  (a status that is absent is invalid too), and with that answer the scorer has not
  been called.
\<close>

theorem identify_invalid_status:
  "identify sequence_a population selected_status = Inr (InvalidStatus, cs) \<longleftrightarrow>
     selected_status \<notin> Some ` set (''all'' # valid_statuses) \<and> cs = []"
proof (cases "selected_status \<in> Some ` set (''all'' # valid_statuses)")
  case True
  then show ?thesis
    by (simp add: identify_accepted identify_search_eq split: option.splits)
next
  case False
  then show ?thesis by (auto simp: identify_rejected)
qed

theorem identify_invalid_status_witness:
  "identify ''ACGT''
     [\<lparr>members = [(''name'', JStr ''A''), (''status'', JStr ''missing'')],
       DNA_sequence = Some ''ACGT''\<rparr>]
     (Some ''unknown_status'') = Inr (InvalidStatus, []) \<and>
   identify ''ACGT''
     [\<lparr>members = [(''name'', JStr ''A''), (''status'', JStr ''missing'')],
       DNA_sequence = Some ''ACGT''\<rparr>]
     None = Inr (InvalidStatus, [])"
  using identify_invalid_status[of "''ACGT''"
     "[\<lparr>members = [(''name'', JStr ''A''), (''status'', JStr ''missing'')],
       DNA_sequence = Some ''ACGT''\<rparr>]" "Some ''unknown_status''" "[]"]
    identify_invalid_status[of "''ACGT''"
     "[\<lparr>members = [(''name'', JStr ''A''), (''status'', JStr ''missing'')],
       DNA_sequence = Some ''ACGT''\<rparr>]" None "[]"]
  by (simp add: valid_statuses_def)

section \<open>The thresholds of the search with relatives\<close>

lemma entry_similarity_one_mismatch:
  "x \<noteq> y \<Longrightarrow> length zs < 2000 \<Longrightarrow>
   entry_similarity (zs @ [x]) \<lparr>members = m, DNA_sequence = Some (zs @ [y])\<rparr> =
     Some (rat_of_int (3 * int (length zs) - 1) / rat_of_int (3 * (int (length zs) + 1)))"
  by (simp add: entry_similarity_def nws_one_mismatch)

lemma entry_similarity_same:
  "a \<noteq> [] \<Longrightarrow> length a \<le> 2000 \<Longrightarrow>
   entry_similarity a \<lparr>members = m, DNA_sequence = Some a\<rparr> = Some 1"
  by (simp add: entry_similarity_one_iff)

lemma py_round_100: "py_round 100 = 100"
  using py_round_of_int[of 100] by simp

lemma py_round_896_9: "py_round (896 / 9) = 100"
  by code_simp

lemma py_round_9500_99: "py_round (9500 / 99) = 96"
  by code_simp

lemma exact_threshold_met_sim:
  "entry_similarity a e = Some r \<Longrightarrow>
   exact_threshold_met a e = (py_round (r * 100) = 100)"
  by (simp add: exact_threshold_met_def entry_percentage_def SIMILARITY_THRESHOLD_def)

lemma child_threshold_met_sim:
  "entry_similarity a e = Some r \<Longrightarrow>
   child_threshold_met a e = (96 \<le> py_round (r * 100))"
  by (simp add: child_threshold_met_def entry_percentage_def SIMILARITY_THRESHOLD_CHILD_def)

lemma missing_primary_iff:
  "\<exists>r. missing a population = Inr r \<and>
     (primary_match (fst r) \<noteq> None) = (\<exists>e\<in>set population. exact_threshold_met a e)"
  by (auto simp: missing_eq Let_def filter_empty_conv)

lemma py_round_200_3: "py_round (200 / 3) = 67"
  by code_simp

lemma py_round_96: "py_round 96 = 96"
  using py_round_of_int[of 96] by simp

lemma py_round_9599_100: "py_round (9599 / 100) = 96"
  by code_simp

lemma py_round_9549_100: "py_round (9549 / 100) = 95"
  by code_simp

lemma exact_threshold_met_percentage:
  "exact_threshold_met a e = (entry_percentage a e = Some 100)"
  by (simp add: exact_threshold_met_def SIMILARITY_THRESHOLD_def)

lemma exact_imp_child: "exact_threshold_met a e \<Longrightarrow> child_threshold_met a e"
  by (simp add: exact_threshold_met_def child_threshold_met_def SIMILARITY_THRESHOLD_def
        SIMILARITY_THRESHOLD_CHILD_def)

lemma entry_percentage_sim:
  "entry_similarity a e = Some r \<Longrightarrow> entry_percentage a e = Some (py_round (r * 100))"
  by (simp add: entry_percentage_def)

lemma entry_similarity_no_sequence:
  "entry_similarity a \<lparr>members = m, DNA_sequence = None\<rparr> = None"
  by (simp add: entry_similarity_def)

lemma threshold_no_sequence:
  "\<not> exact_threshold_met a \<lparr>members = m, DNA_sequence = None\<rparr>"
  "\<not> child_threshold_met a \<lparr>members = m, DNA_sequence = None\<rparr>"
  by (simp_all add: exact_threshold_met_def child_threshold_met_def entry_percentage_def
        entry_similarity_def)

lemma entry_similarity_ACGT_ACGA:
  "entry_similarity ''ACGT'' \<lparr>members = m, DNA_sequence = Some ''ACGA''\<rparr> = Some (2 / 3)"
  using entry_similarity_one_mismatch[of "CHR ''T''" "CHR ''A''" "''ACG''" m] by simp

section \<open>The claims about the search with relatives\<close>

text \<open>
  Claim C1, as the code has it. In \<open>/missing\<close> a record is recorded as the primary
  match exactly when its similarity percentage, \<open>round(similarity_score * 100)\<close>, equals
  100: the test of line 241 compares the rounded percentage, not the similarity score. A
  record whose similarity is exactly 1 passes it. The response names a primary match
  exactly when some record of the population has the percentage 100.
\<close>

theorem missing_exact_tier:
  "main_match_info (missing_classify entry similarity_score s) =
     (if py_round (similarity_score * 100) = 100 then main_info entry
      else main_match_info s) \<and>
   main_match_info (missing_classify entry 1 s) = main_info entry \<and>
   (\<exists>r. missing sequence_a population = Inr r \<and>
      (primary_match (fst r) \<noteq> None) =
      (\<exists>e\<in>set population. entry_percentage sequence_a e = Some 100))"
  using missing_primary_iff[of sequence_a population] py_round_100
  by (simp add: missing_classify_main exact_threshold_met_percentage)

theorem missing_exact_tier_witness:
  "main_match_info
     (missing_classify \<lparr>members = [(''national_id'', JStr ''1'')], DNA_sequence = Some ''ACGT''\<rparr>
        (224 / 225)
        \<lparr>main_match_info = [], potential_children_info = [], scored = []\<rparr>) =
     [(''national_id'', JStr ''1''), (''similarity_percentage'', JNum 100),
      (''match_status'', JStr ''DNA MATCH'')] \<and>
   main_match_info
     (missing_classify \<lparr>members = [(''national_id'', JStr ''1'')], DNA_sequence = Some ''ACGT''\<rparr>
        (2 / 3)
        \<lparr>main_match_info = [], potential_children_info = [], scored = []\<rparr>) = []"
  using missing_exact_tier[of "\<lparr>members = [(''national_id'', JStr ''1'')], DNA_sequence = Some ''ACGT''\<rparr>"
      "224 / 225" "\<lparr>main_match_info = [], potential_children_info = [], scored = []\<rparr>" "[]" "[]"]
    missing_exact_tier[of "\<lparr>members = [(''national_id'', JStr ''1'')], DNA_sequence = Some ''ACGT''\<rparr>"
      "2 / 3" "\<lparr>main_match_info = [], potential_children_info = [], scored = []\<rparr>" "[]" "[]"]
    py_round_896_9 py_round_200_3
  by (simp add: main_info_def select_info_def info_keys_def)

text \<open>
  Claim C1 as stated says that a record whose similarity is below 1 is never reported as
  the primary match. Two sequences of 300 symbols that differ in their last symbol have
  the similarity \<open>896 / 900 = 224 / 225\<close>, whose percentage rounds to 100, and the record is
  reported as the primary match.
\<close>

theorem missing_exact_below_one:
  "entry_similarity (replicate 299 (CHR ''A'') @ ''C'')
     \<lparr>members = [(''national_id'', JStr ''1'')],
      DNA_sequence = Some (replicate 299 (CHR ''A'') @ ''G'')\<rparr> = Some (224 / 225) \<and>
   (224 / 225 :: rat) < 1 \<and>
   missing (replicate 299 (CHR ''A'') @ ''C'')
     [\<lparr>members = [(''national_id'', JStr ''1'')],
       DNA_sequence = Some (replicate 299 (CHR ''A'') @ ''G'')\<rparr>] =
     Inr (MatchNoRelative
            [(''national_id'', JStr ''1''), (''similarity_percentage'', JNum 100),
             (''match_status'', JStr ''DNA MATCH'')],
          [(replicate 299 (CHR ''A'') @ ''C'', replicate 299 (CHR ''A'') @ ''G'')])"
proof -
  let ?q = "replicate 299 (CHR ''A'') @ ''C''"
  let ?e = "\<lparr>members = [(''national_id'', JStr ''1'')],
      DNA_sequence = Some (replicate 299 (CHR ''A'') @ ''G'')\<rparr>"
  have sim: "entry_similarity ?q ?e = Some (224 / 225)"
    by (simp add: entry_similarity_one_mismatch)
  have ex: "exact_threshold_met ?q ?e"
    using py_round_896_9 by (simp add: exact_threshold_met_sim[OF sim])
  have ch: "child_threshold_met ?q ?e"
    using py_round_896_9 by (simp add: child_threshold_met_sim[OF sim])
  have "missing ?q [?e] = Inr (MatchNoRelative (main_info ?e), entry_calls ?q [?e])"
    by (simp add: missing_eq ex ch)
  then show ?thesis using sim
    by (simp add: main_info_def select_info_def info_keys_def entry_calls_def)
qed

text \<open>
  Claim C2, as the code has it. In \<open>/missing\<close> a record is added to the relative
  candidates exactly when its similarity percentage, \<open>round(similarity_score * 100)\<close>, is
  at least 96 (line 247). The similarity 0.96 is classified as a relative; so is 0.9599,
  whose percentage rounds to 96; 0.9549, whose percentage rounds to 95, is not.
\<close>

theorem missing_relative_tier:
  "potential_children_info (missing_classify entry similarity_score s) =
     (if 96 \<le> py_round (similarity_score * 100)
      then potential_children_info s @ [relative_of entry]
      else potential_children_info s) \<and>
   potential_children_info (missing_classify entry (96 / 100) s) =
     potential_children_info s @ [relative_of entry] \<and>
   potential_children_info (missing_classify entry (9599 / 10000) s) =
     potential_children_info s @ [relative_of entry] \<and>
   potential_children_info (missing_classify entry (9549 / 10000) s) =
     potential_children_info s"
  using py_round_96 py_round_9599_100 py_round_9549_100
  by (simp add: missing_classify_children)

theorem missing_relative_tier_witness:
  "potential_children_info
     (missing_classify \<lparr>members = [(''national_id'', JStr ''2'')], DNA_sequence = Some ''ACGT''\<rparr>
        (96 / 100)
        \<lparr>main_match_info = [], potential_children_info = [], scored = []\<rparr>) =
     [\<lparr>relative_data = [(''national_id'', JStr ''2'')]\<rparr>] \<and>
   potential_children_info
     (missing_classify \<lparr>members = [(''national_id'', JStr ''2'')], DNA_sequence = Some ''ACGT''\<rparr>
        (9549 / 10000)
        \<lparr>main_match_info = [], potential_children_info = [], scored = []\<rparr>) = []"
  using missing_relative_tier[of "\<lparr>members = [(''national_id'', JStr ''2'')], DNA_sequence = Some ''ACGT''\<rparr>"
      "2 / 3" "\<lparr>main_match_info = [], potential_children_info = [], scored = []\<rparr>"]
  by (simp add: relative_of_def select_info_def info_keys_def)

text \<open>
  Claim C2 as stated says that the similarity 0.9599 is not classified as a relative. The
  body of the loop adds a record with that similarity to the candidates; and two
  sequences of 33 symbols that differ in their last symbol have the similarity
  \<open>95 / 99\<close>, below 0.96, and the record is returned as a relative of the primary match.
\<close>

theorem relative_below_kinship_threshold:
  "potential_children_info
     (missing_classify \<lparr>members = [(''national_id'', JStr ''2'')], DNA_sequence = Some ''ACGT''\<rparr>
        (9599 / 10000)
        \<lparr>main_match_info = [], potential_children_info = [], scored = []\<rparr>) =
     [\<lparr>relative_data = [(''national_id'', JStr ''2'')]\<rparr>] \<and>
   entry_similarity (replicate 32 (CHR ''A'') @ ''C'')
     \<lparr>members = [(''national_id'', JStr ''2'')],
      DNA_sequence = Some (replicate 32 (CHR ''A'') @ ''G'')\<rparr> = Some (95 / 99) \<and>
   (95 / 99 :: rat) < 96 / 100 \<and>
   missing (replicate 32 (CHR ''A'') @ ''C'')
     [\<lparr>members = [(''national_id'', JStr ''1'')],
       DNA_sequence = Some (replicate 32 (CHR ''A'') @ ''C'')\<rparr>,
      \<lparr>members = [(''national_id'', JStr ''2'')],
       DNA_sequence = Some (replicate 32 (CHR ''A'') @ ''G'')\<rparr>] =
     Inr (MatchWithRelatives
            [(''national_id'', JStr ''1''), (''similarity_percentage'', JNum 100),
             (''match_status'', JStr ''DNA MATCH'')]
            [\<lparr>relative_data = [(''national_id'', JStr ''2'')]\<rparr>],
          [(replicate 32 (CHR ''A'') @ ''C'', replicate 32 (CHR ''A'') @ ''C''),
           (replicate 32 (CHR ''A'') @ ''C'', replicate 32 (CHR ''A'') @ ''G'')])"
proof -
  let ?q = "replicate 32 (CHR ''A'') @ ''C''"
  let ?p = "\<lparr>members = [(''national_id'', JStr ''1'')], DNA_sequence = Some ?q\<rparr>"
  let ?e = "\<lparr>members = [(''national_id'', JStr ''2'')],
      DNA_sequence = Some (replicate 32 (CHR ''A'') @ ''G'')\<rparr>"
  have step: "potential_children_info
     (missing_classify \<lparr>members = [(''national_id'', JStr ''2'')], DNA_sequence = Some ''ACGT''\<rparr>
        (9599 / 10000)
        \<lparr>main_match_info = [], potential_children_info = [], scored = []\<rparr>) =
     [\<lparr>relative_data = [(''national_id'', JStr ''2'')]\<rparr>]"
    using py_round_9599_100
    by (simp add: missing_classify_children relative_of_def select_info_def info_keys_def)
  have simp_p: "entry_similarity ?q ?p = Some 1"
    by (simp add: entry_similarity_same)
  have sim_e: "entry_similarity ?q ?e = Some (95 / 99)"
    by (simp add: entry_similarity_one_mismatch)
  have p: "exact_threshold_met ?q ?p" "child_threshold_met ?q ?p"
    using py_round_100
    by (simp_all add: exact_threshold_met_sim[OF simp_p] child_threshold_met_sim[OF simp_p])
  have e: "\<not> exact_threshold_met ?q ?e" "child_threshold_met ?q ?e"
    using py_round_9500_99
    by (simp_all add: exact_threshold_met_sim[OF sim_e] child_threshold_met_sim[OF sim_e])
  have "missing ?q [?p, ?e] =
     Inr (MatchWithRelatives (main_info ?p) [relative_of ?e], entry_calls ?q [?p, ?e])"
    by (simp add: missing_eq p e dict_get_def)
  then have "missing ?q [?p, ?e] =
     Inr (MatchWithRelatives
            [(''national_id'', JStr ''1''), (''similarity_percentage'', JNum 100),
             (''match_status'', JStr ''DNA MATCH'')]
            [\<lparr>relative_data = [(''national_id'', JStr ''2'')]\<rparr>],
          [(?q, ?q), (?q, replicate 32 (CHR ''A'') @ ''G'')])"
    by (simp add: main_info_def relative_of_def select_info_def info_keys_def entry_calls_def)
  then show ?thesis using step sim_e by simp
qed

text \<open>
  Claim C3, as the code has it. The two tests of the loop are independent: every record
  that passes the test of the primary match also passes the test of the candidates and is
  added to them. When a primary match exists, the relatives returned are the candidates,
  in the order of the population, without those whose \<open>national_id\<close> equals the one of the
  primary match (an absent \<open>national_id\<close> counting as \<open>None\<close>); nothing else is removed.
\<close>

theorem missing_relatives_filter:
  "(exact_threshold_met a e \<longrightarrow> child_threshold_met a e) \<and>
   (filter (exact_threshold_met a) population \<noteq> [] \<longrightarrow>
    (\<exists>r cs. missing a population = Inr (r, cs) \<and>
       relatives r =
         map relative_of
           (filter (\<lambda>e. child_threshold_met a e \<and>
                         dict_get (members e) ''national_id'' \<noteq>
                         dict_get (members (last (filter (exact_threshold_met a) population)))
                           ''national_id'')
              population)))"
proof (intro conjI impI)
  assume "exact_threshold_met a e"
  then show "child_threshold_met a e" by (rule exact_imp_child)
next
  assume ne: "filter (exact_threshold_met a) population \<noteq> []"
  define p where "p = last (filter (exact_threshold_met a) population)"
  define remaining where "remaining =
    map relative_of
      (filter (\<lambda>e. dict_get (members e) ''national_id'' \<noteq> dict_get (members p) ''national_id'')
         (filter (child_threshold_met a) population))"
  have m: "missing a population =
      Inr (if remaining \<noteq> [] then MatchWithRelatives (main_info p) remaining
           else MatchNoRelative (main_info p), entry_calls a population)"
    using ne unfolding remaining_def p_def by (simp only: missing_eq Let_def if_False)
  have r: "relatives (if remaining \<noteq> [] then MatchWithRelatives (main_info p) remaining
           else MatchNoRelative (main_info p)) = remaining"
    by simp
  have f: "remaining =
      map relative_of
        (filter (\<lambda>e. child_threshold_met a e \<and>
                   dict_get (members e) ''national_id'' \<noteq> dict_get (members p) ''national_id'')
           population)"
    unfolding remaining_def by (simp only: filter_filter)
  show "\<exists>r cs. missing a population = Inr (r, cs) \<and>
       relatives r =
         map relative_of
           (filter (\<lambda>e. child_threshold_met a e \<and>
                         dict_get (members e) ''national_id'' \<noteq>
                         dict_get (members (last (filter (exact_threshold_met a) population)))
                           ''national_id'')
              population)"
    using m r f unfolding p_def by blast
qed

theorem missing_relatives_filter_witness:
  "filter (exact_threshold_met ''ACGT'')
     [\<lparr>members = [(''national_id'', JStr ''1'')], DNA_sequence = Some ''ACGT''\<rparr>,
      \<lparr>members = [(''national_id'', JStr ''2'')], DNA_sequence = Some ''ACGT''\<rparr>,
      \<lparr>members = [(''national_id'', JStr ''2'')], DNA_sequence = Some ''ACGT''\<rparr>,
      \<lparr>members = [(''national_id'', JStr ''3'')], DNA_sequence = Some ''ACGA''\<rparr>] \<noteq> [] \<and>
   (\<exists>r cs. missing ''ACGT''
     [\<lparr>members = [(''national_id'', JStr ''1'')], DNA_sequence = Some ''ACGT''\<rparr>,
      \<lparr>members = [(''national_id'', JStr ''2'')], DNA_sequence = Some ''ACGT''\<rparr>,
      \<lparr>members = [(''national_id'', JStr ''2'')], DNA_sequence = Some ''ACGT''\<rparr>,
      \<lparr>members = [(''national_id'', JStr ''3'')], DNA_sequence = Some ''ACGA''\<rparr>] = Inr (r, cs) \<and>
     relatives r = [\<lparr>relative_data = [(''national_id'', JStr ''1'')]\<rparr>])"
proof -
  let ?q = "''ACGT''"
  have ex: "\<And>m. exact_threshold_met ?q \<lparr>members = m, DNA_sequence = Some ''ACGT''\<rparr>"
       "\<And>m. child_threshold_met ?q \<lparr>members = m, DNA_sequence = Some ''ACGT''\<rparr>"
    using py_round_100
    by (simp_all add: exact_threshold_met_sim[OF entry_similarity_same]
          child_threshold_met_sim[OF entry_similarity_same])
  have ne: "\<And>m. \<not> exact_threshold_met ?q \<lparr>members = m, DNA_sequence = Some ''ACGA''\<rparr>"
       "\<And>m. \<not> child_threshold_met ?q \<lparr>members = m, DNA_sequence = Some ''ACGA''\<rparr>"
    using py_round_200_3
    by (simp_all add: exact_threshold_met_sim[OF entry_similarity_ACGT_ACGA]
          child_threshold_met_sim[OF entry_similarity_ACGT_ACGA])
  show ?thesis
    using missing_relatives_filter[of ?q "\<lparr>members = [], DNA_sequence = None\<rparr>"
     "[\<lparr>members = [(''national_id'', JStr ''1'')], DNA_sequence = Some ''ACGT''\<rparr>,
      \<lparr>members = [(''national_id'', JStr ''2'')], DNA_sequence = Some ''ACGT''\<rparr>,
      \<lparr>members = [(''national_id'', JStr ''2'')], DNA_sequence = Some ''ACGT''\<rparr>,
      \<lparr>members = [(''national_id'', JStr ''3'')], DNA_sequence = Some ''ACGA''\<rparr>]"]
    by (simp add: ex ne dict_get_def relative_of_def select_info_def info_keys_def)
qed

text \<open>
  Claim C3 as stated says that a record whose similarity is exactly 1 is never among the
  relatives returned. With two records of similarity 1 and different \<open>national_id\<close>, the
  second is the primary match and the first is returned as its relative.
\<close>

theorem exact_record_among_relatives:
  "entry_similarity ''ACGT''
     \<lparr>members = [(''national_id'', JStr ''1'')], DNA_sequence = Some ''ACGT''\<rparr> = Some 1 \<and>
   missing ''ACGT''
     [\<lparr>members = [(''national_id'', JStr ''1'')], DNA_sequence = Some ''ACGT''\<rparr>,
      \<lparr>members = [(''national_id'', JStr ''2'')], DNA_sequence = Some ''ACGT''\<rparr>] =
     Inr (MatchWithRelatives
            [(''national_id'', JStr ''2''), (''similarity_percentage'', JNum 100),
             (''match_status'', JStr ''DNA MATCH'')]
            [\<lparr>relative_data = [(''national_id'', JStr ''1'')]\<rparr>],
          [(''ACGT'', ''ACGT''), (''ACGT'', ''ACGT'')])"
proof -
  let ?q = "''ACGT''"
  have ex: "\<And>m. exact_threshold_met ?q \<lparr>members = m, DNA_sequence = Some ''ACGT''\<rparr>"
       "\<And>m. child_threshold_met ?q \<lparr>members = m, DNA_sequence = Some ''ACGT''\<rparr>"
    using py_round_100
    by (simp_all add: exact_threshold_met_sim[OF entry_similarity_same]
          child_threshold_met_sim[OF entry_similarity_same])
  show ?thesis
    by (simp add: entry_similarity_same missing_eq ex dict_get_def main_info_def relative_of_def
          select_info_def info_keys_def entry_calls_def)
qed

text \<open>
  Claim C6, as the code has it. When no record of the population has the similarity
  percentage 100, \<open>/missing\<close> answers that no match was found and reports no relative,
  also when records have a percentage of 96 or more; every record with a sequence has
  been scored.
\<close>

theorem missing_no_exact_no_match:
  "\<forall>e\<in>set population. entry_percentage a e \<noteq> Some 100 \<Longrightarrow>
   missing a population = Inr (NoMatchFound, entry_calls a population)"
  by (simp add: missing_eq filter_empty_conv exact_threshold_met_percentage)

theorem missing_no_exact_no_match_witness:
  "entry_percentage (replicate 32 (CHR ''A'') @ ''C'')
     \<lparr>members = [(''national_id'', JStr ''2'')],
      DNA_sequence = Some (replicate 32 (CHR ''A'') @ ''G'')\<rparr> = Some 96 \<and>
   entry_percentage (replicate 32 (CHR ''A'') @ ''C'')
     \<lparr>members = [(''national_id'', JStr ''3'')], DNA_sequence = None\<rparr> = None \<and>
   missing (replicate 32 (CHR ''A'') @ ''C'')
     [\<lparr>members = [(''national_id'', JStr ''2'')],
       DNA_sequence = Some (replicate 32 (CHR ''A'') @ ''G'')\<rparr>,
      \<lparr>members = [(''national_id'', JStr ''3'')], DNA_sequence = None\<rparr>] =
     Inr (NoMatchFound,
          [(replicate 32 (CHR ''A'') @ ''C'', replicate 32 (CHR ''A'') @ ''G'')])"
proof -
  let ?q = "replicate 32 (CHR ''A'') @ ''C''"
  let ?e = "\<lparr>members = [(''national_id'', JStr ''2'')],
      DNA_sequence = Some (replicate 32 (CHR ''A'') @ ''G'')\<rparr>"
  let ?n = "\<lparr>members = [(''national_id'', JStr ''3'')], DNA_sequence = None\<rparr>"
  have sim_e: "entry_similarity ?q ?e = Some (95 / 99)"
    by (simp add: entry_similarity_one_mismatch)
  have pe: "entry_percentage ?q ?e = Some 96"
    using py_round_9500_99 by (simp add: entry_percentage_sim[OF sim_e])
  have pn: "entry_percentage ?q ?n = None"
    by (simp add: entry_percentage_def entry_similarity_no_sequence)
  have h: "\<forall>e\<in>set [?e, ?n]. entry_percentage ?q e \<noteq> Some 100"
    using pe pn by simp
  show ?thesis
    using missing_no_exact_no_match[OF h] pe pn by (simp add: entry_calls_def)
qed

text \<open>
  Claim C6 as stated is about populations without a record of similarity exactly 1. In a
  population of two records that both differ from the query of 300 symbols in the last
  symbol, no record has the similarity 1; both have the percentage 100, and the response
  names a primary match and a relative.
\<close>

theorem match_without_exact_similarity:
  "entry_similarity (replicate 299 (CHR ''A'') @ ''C'')
     \<lparr>members = [(''national_id'', JStr ''1'')],
      DNA_sequence = Some (replicate 299 (CHR ''A'') @ ''G'')\<rparr> = Some (224 / 225) \<and>
   entry_similarity (replicate 299 (CHR ''A'') @ ''C'')
     \<lparr>members = [(''national_id'', JStr ''2'')],
      DNA_sequence = Some (replicate 299 (CHR ''A'') @ ''T'')\<rparr> = Some (224 / 225) \<and>
   (224 / 225 :: rat) < 1 \<and>
   missing (replicate 299 (CHR ''A'') @ ''C'')
     [\<lparr>members = [(''national_id'', JStr ''1'')],
       DNA_sequence = Some (replicate 299 (CHR ''A'') @ ''G'')\<rparr>,
      \<lparr>members = [(''national_id'', JStr ''2'')],
       DNA_sequence = Some (replicate 299 (CHR ''A'') @ ''T'')\<rparr>] =
     Inr (MatchWithRelatives
            [(''national_id'', JStr ''2''), (''similarity_percentage'', JNum 100),
             (''match_status'', JStr ''DNA MATCH'')]
            [\<lparr>relative_data = [(''national_id'', JStr ''1'')]\<rparr>],
          [(replicate 299 (CHR ''A'') @ ''C'', replicate 299 (CHR ''A'') @ ''G''),
           (replicate 299 (CHR ''A'') @ ''C'', replicate 299 (CHR ''A'') @ ''T'')])"
proof -
  let ?q = "replicate 299 (CHR ''A'') @ ''C''"
  let ?e1 = "\<lparr>members = [(''national_id'', JStr ''1'')],
      DNA_sequence = Some (replicate 299 (CHR ''A'') @ ''G'')\<rparr>"
  let ?e2 = "\<lparr>members = [(''national_id'', JStr ''2'')],
      DNA_sequence = Some (replicate 299 (CHR ''A'') @ ''T'')\<rparr>"
  have s1: "entry_similarity ?q ?e1 = Some (224 / 225)"
    by (simp add: entry_similarity_one_mismatch)
  have s2: "entry_similarity ?q ?e2 = Some (224 / 225)"
    by (simp add: entry_similarity_one_mismatch)
  have t1: "exact_threshold_met ?q ?e1" "child_threshold_met ?q ?e1"
    using py_round_896_9
    by (simp_all add: exact_threshold_met_sim[OF s1] child_threshold_met_sim[OF s1])
  have t2: "exact_threshold_met ?q ?e2" "child_threshold_met ?q ?e2"
    using py_round_896_9
    by (simp_all add: exact_threshold_met_sim[OF s2] child_threshold_met_sim[OF s2])
  have "missing ?q [?e1, ?e2] =
      Inr (MatchWithRelatives (main_info ?e2) [relative_of ?e1], entry_calls ?q [?e1, ?e2])"
    by (simp add: missing_eq t1 t2 dict_get_def)
  then show ?thesis using s1 s2
    by (simp add: main_info_def relative_of_def select_info_def info_keys_def entry_calls_def)
qed

text \<open>
  Claim C10. When records of the population reach the threshold of the primary match
  (\<open>SIMILARITY_THRESHOLD\<close>, the percentage 100), and in particular when two or more do,
  the primary match returned is the last of them in the order of the population: each
  later one overwrites the match recorded before. The scan does not stop: the scorer is
  called for every record with a sequence.
\<close>

theorem missing_last_exact_wins:
  "filter (exact_threshold_met a) population = exacts \<Longrightarrow> exacts \<noteq> [] \<Longrightarrow>
   \<exists>r. missing a population = Inr (r, entry_calls a population) \<and>
       primary_match r = Some (main_info (last exacts))"
  by (auto simp: missing_eq Let_def)

theorem missing_last_exact_wins_witness:
  "filter (exact_threshold_met ''ACGT'')
     [\<lparr>members = [(''national_id'', JStr ''1'')], DNA_sequence = Some ''ACGT''\<rparr>,
      \<lparr>members = [(''national_id'', JStr ''2'')], DNA_sequence = None\<rparr>,
      \<lparr>members = [(''national_id'', JStr ''3'')], DNA_sequence = Some ''ACGT''\<rparr>,
      \<lparr>members = [(''national_id'', JStr ''4'')], DNA_sequence = Some ''ACGA''\<rparr>] =
     [\<lparr>members = [(''national_id'', JStr ''1'')], DNA_sequence = Some ''ACGT''\<rparr>,
      \<lparr>members = [(''national_id'', JStr ''3'')], DNA_sequence = Some ''ACGT''\<rparr>] \<and>
   (\<exists>r. missing ''ACGT''
     [\<lparr>members = [(''national_id'', JStr ''1'')], DNA_sequence = Some ''ACGT''\<rparr>,
      \<lparr>members = [(''national_id'', JStr ''2'')], DNA_sequence = None\<rparr>,
      \<lparr>members = [(''national_id'', JStr ''3'')], DNA_sequence = Some ''ACGT''\<rparr>,
      \<lparr>members = [(''national_id'', JStr ''4'')], DNA_sequence = Some ''ACGA''\<rparr>] =
       Inr (r, [(''ACGT'', ''ACGT''), (''ACGT'', ''ACGT''), (''ACGT'', ''ACGA'')]) \<and>
     primary_match r =
       Some [(''national_id'', JStr ''3''), (''similarity_percentage'', JNum 100),
             (''match_status'', JStr ''DNA MATCH'')])"
proof -
  let ?q = "''ACGT''"
  let ?pop = "[\<lparr>members = [(''national_id'', JStr ''1'')], DNA_sequence = Some ''ACGT''\<rparr>,
      \<lparr>members = [(''national_id'', JStr ''2'')], DNA_sequence = None\<rparr>,
      \<lparr>members = [(''national_id'', JStr ''3'')], DNA_sequence = Some ''ACGT''\<rparr>,
      \<lparr>members = [(''national_id'', JStr ''4'')], DNA_sequence = Some ''ACGA''\<rparr>]"
  let ?ex = "[\<lparr>members = [(''national_id'', JStr ''1'')], DNA_sequence = Some ''ACGT''\<rparr>,
      \<lparr>members = [(''national_id'', JStr ''3'')], DNA_sequence = Some ''ACGT''\<rparr>]"
  have ex: "\<And>m. exact_threshold_met ?q \<lparr>members = m, DNA_sequence = Some ''ACGT''\<rparr>"
    using py_round_100 by (simp add: exact_threshold_met_sim[OF entry_similarity_same])
  have ne: "\<And>m. \<not> exact_threshold_met ?q \<lparr>members = m, DNA_sequence = Some ''ACGA''\<rparr>"
    using py_round_200_3 by (simp add: exact_threshold_met_sim[OF entry_similarity_ACGT_ACGA])
  have f: "filter (exact_threshold_met ?q) ?pop = ?ex"
    by (simp add: ex ne threshold_no_sequence)
  have n: "?ex \<noteq> []" by simp
  show ?thesis
    using missing_last_exact_wins[OF f n] f
    by (simp add: main_info_def select_info_def info_keys_def entry_calls_def)
qed

end
